theory Spec2Isabelle
  imports Complex_Main "HOL-Library.AList" "HOL-Library.Char_ord" "HOL-Library.List_Lexorder"
begin

text \<open>
  The state store and the bootstrap of the geowiki application: the class \<open>State\<close>
  (\<open>get\<close>, \<open>apply\<close>, \<open>stringify\<close>, \<open>parse\<close>, \<open>updateLink\<close>) and the class \<open>App\<close>
  (\<open>initModules\<close>, \<open>getInitState\<close>, \<open>init\<close>), as functions on values. A method takes
  the State object and returns it as the call leaves it; an exception is the left
  summand of the result.
\<close>

section \<open>JavaScript values and objects\<close>

text \<open>
  A JavaScript number is modelled by its exact value: every finite double is a rational.
  The three non-finite numbers are separate constructors (minus zero is not told apart
  from zero: the code never divides by it).
\<close>

datatype jsnum = Finite rat | NaN | PosInf | NegInf

text \<open>
  The values a state holds: string, number or null. A key that is absent reads as
  \<open>undefined\<close>, which is \<open>None\<close> of the lookup.
\<close>

datatype jsval = JNull | JStr string | JNum jsnum

text \<open>
  An object with string keys, in insertion order. \<open>o[k] = v\<close> is \<open>AList.update k v\<close>
  (in place when the key exists, appended otherwise), \<open>delete o[k]\<close> is
  \<open>AList.delete k\<close>, \<open>o[k]\<close> is \<open>map_of o k\<close>, and the spread copy
  \<open>{ ...o }\<close> of an immutable value is the value itself.
\<close>

type_synonym obj = "(string \<times> jsval) list"

datatype error = URIError | TypeError | OutsideModel

text \<open>Truthiness of \<open>o[k]\<close>: undefined, null, the empty string, zero and NaN are falsy.\<close>

fun truthy :: "jsval option \<Rightarrow> bool" where
  "truthy None = False"
| "truthy (Some JNull) = False"
| "truthy (Some (JStr s)) = (s \<noteq> [])"
| "truthy (Some (JNum n)) = (n \<noteq> Finite 0 \<and> n \<noteq> NaN)"

section \<open>Builtins and libraries the code calls\<close>

text \<open>
  The functions of the JavaScript runtime and of the \<open>query-string\<close> package that the
  code calls are parameters of the model. \<open>qs_parse\<close> may answer \<open>OutsideModel\<close> where
  the package would build a value that is no string, number or null (an array for a
  repeated key).
\<close>

record lib =
  encodeURIComponent :: "string \<Rightarrow> string"
  decodeURIComponent :: "string \<Rightarrow> error + string"
  qs_stringify :: "obj \<Rightarrow> string"
  qs_parse :: "string \<Rightarrow> error + obj"
  parseFloat :: "string \<Rightarrow> jsnum"
  to_number :: "string \<Rightarrow> jsnum"
  toFixed :: "jsnum \<Rightarrow> nat \<Rightarrow> string"
  num_to_string :: "jsnum \<Rightarrow> string"

text \<open>\<open>String(v)\<close> for a value (what \<open>encodeURIComponent\<close> and \<open>parseFloat\<close> do first).\<close>

fun to_string :: "lib \<Rightarrow> jsval \<Rightarrow> string" where
  "to_string L JNull = ''null''"
| "to_string L (JStr s) = s"
| "to_string L (JNum n) = num_to_string L n"

text \<open>\<open>v > c\<close> for a constant \<open>c\<close>: a string or null operand is converted to a number first.\<close>

fun num_gt :: "jsnum \<Rightarrow> rat \<Rightarrow> bool" where
  "num_gt (Finite x) c = (x > c)"
| "num_gt NaN c = False"
| "num_gt PosInf c = True"
| "num_gt NegInf c = False"

fun js_gt :: "lib \<Rightarrow> jsval \<Rightarrow> rat \<Rightarrow> bool" where
  "js_gt L JNull c = (0 > c)"
| "js_gt L (JStr s) c = num_gt (to_number L s) c"
| "js_gt L (JNum n) c = num_gt n c"

section \<open>String helpers\<close>

text \<open>\<open>s.search(c)\<close> for a one-character pattern: the first index, \<open>None\<close> for \<open>-1\<close>.\<close>

definition search :: "char \<Rightarrow> string \<Rightarrow> nat option" where
  "search c s = (if c \<in> set s then Some (length (takeWhile (\<lambda>x. x \<noteq> c) s)) else None)"

text \<open>\<open>s.replace(/abc/g, r)\<close> for a pattern of three characters and one replacement character.\<close>

fun replace3 :: "string \<Rightarrow> char \<Rightarrow> string \<Rightarrow> string" where
  "replace3 pat r (a # b # c # cs) =
     (if [a, b, c] = pat then r # replace3 pat r cs else a # replace3 pat r (b # c # cs))"
| "replace3 pat r cs = cs"

text \<open>\<open>s.split(sep)\<close> for a one-character separator.\<close>

fun split_on :: "char \<Rightarrow> string \<Rightarrow> string list" where
  "split_on sep [] = [[]]"
| "split_on sep (c # cs) =
     (if c = sep then [] # split_on sep cs
      else (case split_on sep cs of p # ps \<Rightarrow> (c # p) # ps | [] \<Rightarrow> [[c]]))"

section \<open>The State object\<close>

record formatter =
  fmt_stringify :: "(jsval \<Rightarrow> jsval) option"
  fmt_parse :: "(jsval \<Rightarrow> jsval) option"

datatype history_call = PushState string | ReplaceState string

text \<open>
  The State instance with the parts of the browser it touches: the listeners of its
  \<open>get\<close> event (each adds to the accumulator it is handed), the fragment of the
  location, the calls made on the history, the callbacks handed to \<open>setTimeout\<close> that
  have not run yet (each will emit \<open>apply\<close> with its payload), and the payloads the
  \<open>apply\<close> listeners have been called with.
\<close>

record State =
  current :: obj
  previous :: "obj option"
  parameters :: "(string \<times> formatter) list"
  get_listeners :: "(obj \<Rightarrow> obj) list"
  location_hash :: string
  history_calls :: "history_call list"
  timers :: "obj list"
  delivered :: "obj list"

text \<open>\<open>get ()\<close>: emit \<open>get\<close> with an empty accumulator, synchronously.\<close>

definition get :: "State \<Rightarrow> obj" where
  "get S = fold (\<lambda>listener acc. listener acc) (get_listeners S) []"

subsection \<open>stringify\<close>

text \<open>The path: \<open>if (state.path) { link += encodeURIComponent(state.path); delete state.path }\<close>.\<close>

definition path_stage :: "lib \<Rightarrow> obj \<Rightarrow> string \<times> obj" where
  "path_stage L st =
     (if truthy (map_of st ''path'')
      then (encodeURIComponent L (to_string L (the (map_of st ''path''))), AList.delete ''path'' st)
      else ([], st))"

text \<open>The precision of the coordinates, from the zoom.\<close>

definition locPrecision :: "lib \<Rightarrow> obj \<Rightarrow> nat" where
  "locPrecision L st =
     (if truthy (map_of st ''zoom'')
      then (let zoom = the (map_of st ''zoom'') in
            if js_gt L zoom 16 then 5
            else if js_gt L zoom 8 then 4
            else if js_gt L zoom 4 then 3
            else if js_gt L zoom 2 then 2
            else if js_gt L zoom 1 then 1
            else 0)
      else 5)"

text \<open>\<open>v.toFixed(p)\<close>: only a number has the method.\<close>

fun call_toFixed :: "lib \<Rightarrow> jsval \<Rightarrow> nat \<Rightarrow> error + string" where
  "call_toFixed L (JNum n) p = Inr (toFixed L n p)"
| "call_toFixed L v p = Inl TypeError"

definition amp :: "string \<Rightarrow> string" where
  "amp link = (if link = [] then [] else ''&'')"

text \<open>The location: the composite \<open>map=zoom/lat/lon\<close> when the three values are truthy.\<close>

definition map_stage :: "lib \<Rightarrow> string \<Rightarrow> obj \<Rightarrow> error + string \<times> obj" where
  "map_stage L link st =
     (if truthy (map_of st ''zoom'') \<and> truthy (map_of st ''lat'') \<and> truthy (map_of st ''lon'')
      then (case call_toFixed L (the (map_of st ''lat'')) (locPrecision L st) of
              Inl e \<Rightarrow> Inl e
            | Inr la \<Rightarrow>
               (case call_toFixed L (the (map_of st ''lon'')) (locPrecision L st) of
                  Inl e \<Rightarrow> Inl e
                | Inr lo \<Rightarrow>
                    Inr (link @ amp link @ ''map='' @
                           toFixed L (parseFloat L (to_string L (the (map_of st ''zoom'')))) 0 @
                           ''/'' @ la @ ''/'' @ lo,
                         AList.delete ''lon'' (AList.delete ''lat'' (AList.delete ''zoom'' st)))))
      else Inr (link, st))"

text \<open>\<open>Object.fromEntries(Object.entries(state).filter(([k, v]) => v !== null))\<close>.\<close>

definition filter_null :: "obj \<Rightarrow> obj" where
  "filter_null st = filter (\<lambda>(k, v). v \<noteq> JNull) st"

text \<open>One formatter of the registry, applied to its key when the value is truthy.\<close>

definition stringify_parameter :: "string \<times> formatter \<Rightarrow> obj \<Rightarrow> obj" where
  "stringify_parameter kp st =
     (case kp of (k, parameter) \<Rightarrow>
        (case fmt_stringify parameter of
           Some f \<Rightarrow> (if truthy (map_of st k) then AList.update k (f (the (map_of st k))) st else st)
         | None \<Rightarrow> st))"

definition stringify_parameters :: "(string \<times> formatter) list \<Rightarrow> obj \<Rightarrow> obj" where
  "stringify_parameters ps st = fold stringify_parameter ps st"

text \<open>The characters that stay readable: \<open>%2F\<close>, \<open>%2C\<close> and \<open>%3A\<close> are un-escaped, in that order.\<close>

definition unescape_hash :: "string \<Rightarrow> string" where
  "unescape_hash h =
     replace3 ''%3A'' (CHR '':'') (replace3 ''%2C'' (CHR '','') (replace3 ''%2F'' (CHR ''/'') h))"

definition hash_stage :: "lib \<Rightarrow> (string \<times> formatter) list \<Rightarrow> string \<Rightarrow> obj \<Rightarrow> string" where
  "hash_stage L ps link st =
     (let newHash = unescape_hash (qs_stringify L (stringify_parameters ps (filter_null st)))
      in if newHash \<noteq> [] then link @ amp link @ newHash else link)"

text \<open>The body of \<open>stringify\<close>, on the copy of the state.\<close>

definition stringify_object :: "lib \<Rightarrow> (string \<times> formatter) list \<Rightarrow> obj \<Rightarrow> error + string" where
  "stringify_object L ps state =
     (case path_stage L state of
        (link, state1) \<Rightarrow>
          (case map_stage L link state1 of
             Inl e \<Rightarrow> Inl e
           | Inr (link2, state2) \<Rightarrow> Inr (hash_stage L ps link2 state2)))"

text \<open>
  \<open>stringify (state = null)\<close>: an object is always truthy, so only the missing argument
  takes the state from \<open>get ()\<close>.
\<close>

definition stringify :: "lib \<Rightarrow> State \<Rightarrow> obj option \<Rightarrow> error + string" where
  "stringify L S arg =
     stringify_object L (parameters S) (case arg of None \<Rightarrow> get S | Some st \<Rightarrow> st)"

subsection \<open>parse\<close>

text \<open>The split of the link into the raw path and the raw parameters.\<close>

definition split_link :: "string \<Rightarrow> string \<times> string" where
  "split_link link =
     (if link = [] then ([], [])
      else (case search (CHR ''='') link of
              None \<Rightarrow>
                (case search (CHR ''&'') link of
                   None \<Rightarrow> (link, [])
                 | Some firstAmp \<Rightarrow> (take firstAmp link, []))
            | Some firstEquals \<Rightarrow>
                (case search (CHR ''&'') link of
                   None \<Rightarrow> ([], link)
                 | Some firstAmp \<Rightarrow>
                     (if firstAmp < firstEquals
                      then (take firstAmp link, drop (firstAmp + 1) link)
                      else ([], link)))))"

text \<open>\<open>parseFloat(parts[i])\<close>: a missing part is \<open>undefined\<close>, read as the string \<open>undefined\<close>.\<close>

definition part_float :: "lib \<Rightarrow> string list \<Rightarrow> nat \<Rightarrow> jsval" where
  "part_float L parts i =
     JNum (parseFloat L (if i < length parts then parts ! i else ''undefined''))"

definition expand_map :: "lib \<Rightarrow> obj \<Rightarrow> error + obj" where
  "expand_map L newState =
     (case map_of newState ''map'' of
        None \<Rightarrow> Inr newState
      | Some (JStr m) \<Rightarrow>
          (if m = ''auto'' then Inr newState
           else (let parts = split_on (CHR ''/'') m in
                 Inr (AList.delete ''map''
                        (AList.update ''lon'' (part_float L parts 2)
                          (AList.update ''lat'' (part_float L parts 1)
                            (AList.update ''zoom'' (part_float L parts 0) newState))))))
      | Some v \<Rightarrow> Inl TypeError)"

definition parse_parameter :: "string \<times> formatter \<Rightarrow> obj \<Rightarrow> obj" where
  "parse_parameter kp st =
     (case kp of (k, parameter) \<Rightarrow>
        (case fmt_parse parameter of
           Some f \<Rightarrow> (if truthy (map_of st k) then AList.update k (f (the (map_of st k))) st else st)
         | None \<Rightarrow> st))"

definition parse_parameters :: "(string \<times> formatter) list \<Rightarrow> obj \<Rightarrow> obj" where
  "parse_parameters ps st = fold parse_parameter ps st"

text \<open>
  \<open>parse (link = null)\<close>: a missing or empty link is read from the location, without its
  leading \<open>#\<close> characters.
\<close>

definition read_link :: "State \<Rightarrow> string option \<Rightarrow> string" where
  "read_link S arg =
     (case arg of
        None \<Rightarrow> dropWhile (\<lambda>c. c = CHR ''#'') (location_hash S)
      | Some l \<Rightarrow> if l = [] then dropWhile (\<lambda>c. c = CHR ''#'') (location_hash S) else l)"

definition set_path :: "lib \<Rightarrow> string \<Rightarrow> obj \<Rightarrow> error + obj" where
  "set_path L newPath newState =
     (if newPath \<noteq> []
      then (case decodeURIComponent L newPath of
              Inl e \<Rightarrow> Inl e
            | Inr p \<Rightarrow> Inr (AList.update ''path'' (JStr p) newState))
      else Inr newState)"

definition parse_link :: "lib \<Rightarrow> (string \<times> formatter) list \<Rightarrow> string \<Rightarrow> error + obj" where
  "parse_link L ps link =
     (case split_link link of
        (newPath, urlNonPathPart) \<Rightarrow>
          (case qs_parse L urlNonPathPart of
             Inl e \<Rightarrow> Inl e
           | Inr parsed \<Rightarrow>
              (case set_path L newPath parsed of
                 Inl e \<Rightarrow> Inl e
               | Inr withPath \<Rightarrow>
                  (case expand_map L withPath of
                     Inl e \<Rightarrow> Inl e
                   | Inr newState \<Rightarrow> Inr (parse_parameters ps newState)))))"

definition parse :: "lib \<Rightarrow> State \<Rightarrow> string option \<Rightarrow> error + obj" where
  "parse L S arg = parse_link L (parameters S) (read_link S arg)"

subsection \<open>updateLink and apply\<close>

text \<open>
  \<open>updateLink (push = false)\<close> calls \<open>this.stringify()\<close> with no argument. The history
  call also moves the location to the new fragment.
\<close>

definition updateLink :: "lib \<Rightarrow> State \<Rightarrow> bool \<Rightarrow> error + State" where
  "updateLink L S push =
     (case stringify L S None of
        Inl e \<Rightarrow> Inl e
      | Inr s \<Rightarrow>
          Inr (S\<lparr>history_calls :=
                   history_calls S @ [if push then PushState (CHR ''#'' # s) else ReplaceState (CHR ''#'' # s)],
                 location_hash := (if s = [] then [] else CHR ''#'' # s)\<rparr>))"

datatype apply_arg = ArgNull | ArgString string | ArgObject obj

text \<open>\<open>for (const k in state) { this.current[k] = state[k] }\<close>.\<close>

definition merge_into :: "obj \<Rightarrow> obj \<Rightarrow> obj" where
  "merge_into cur state = fold (\<lambda>(k, v) c. AList.update k v c) state cur"

text \<open>
  \<open>apply (state = null, options = {})\<close>, with \<open>options.update\<close> as an optional string. The
  result is the State object as the call leaves it, also when it throws, and what the
  call returns or throws.
\<close>

definition apply_state :: "lib \<Rightarrow> State \<Rightarrow> apply_arg \<Rightarrow> string option \<Rightarrow> State \<times> (error + obj)" where
  "apply_state L S arg update =
     (let S1 = S\<lparr>previous := Some (current S)\<rparr> in
      case (case arg of
              ArgNull \<Rightarrow> parse L S1 None
            | ArgString s \<Rightarrow> parse L S1 (Some s)
            | ArgObject st \<Rightarrow> Inr st) of
        Inl e \<Rightarrow> (S1, Inl e)
      | Inr state \<Rightarrow>
          (let S2 = S1\<lparr>current := merge_into (current S1) state\<rparr> in
           case (if update \<noteq> None \<and> update \<noteq> Some []
                 then updateLink L S2 (update = Some ''push'')
                 else Inr S2) of
             Inl e \<Rightarrow> (S2, Inl e)
           | Inr S3 \<Rightarrow> (S3\<lparr>timers := timers S3 @ [state]\<rparr>, Inr state)))"

text \<open>One turn of the event loop: the oldest timer callback runs and emits \<open>apply\<close>.\<close>

definition run_timer :: "State \<Rightarrow> State" where
  "run_timer S =
     (case timers S of
        [] \<Rightarrow> S
      | state # rest \<Rightarrow> S\<lparr>timers := rest, delivered := delivered S @ [state]\<rparr>)"

section \<open>A reference instance of the builtins\<close>

text \<open>
  The closed examples below run the code on this instance. It follows ECMA-262 and the
  \<open>query-string\<close> package (default options) on ASCII text. Where JavaScript rounds a
  decimal to the nearest double, the instance keeps the exact decimal value: the two
  agree on every value a double holds exactly, and on the digits of the examples
  below, which are far from a rounding boundary.
\<close>

definition hex_char :: "nat \<Rightarrow> char" where
  "hex_char n = (if n < 10 then char_of (48 + n) else char_of (55 + n))"

definition is_digit :: "char \<Rightarrow> bool" where
  "is_digit c = (48 \<le> (of_char c :: nat) \<and> (of_char c :: nat) \<le> 57)"

definition is_alpha :: "char \<Rightarrow> bool" where
  "is_alpha c = ((65 \<le> (of_char c :: nat) \<and> (of_char c :: nat) \<le> 90) \<or>
                 (97 \<le> (of_char c :: nat) \<and> (of_char c :: nat) \<le> 122))"

definition is_space :: "char \<Rightarrow> bool" where
  "is_space c = ((of_char c :: nat) = 32 \<or> (9 \<le> (of_char c :: nat) \<and> (of_char c :: nat) \<le> 13))"

definition hex_value :: "char \<Rightarrow> nat option" where
  "hex_value c =
     (let n = (of_char c :: nat) in
      if 48 \<le> n \<and> n \<le> 57 then Some (n - 48)
      else if 65 \<le> n \<and> n \<le> 70 then Some (n - 55)
      else if 97 \<le> n \<and> n \<le> 102 then Some (n - 87)
      else None)"

definition percent :: "char \<Rightarrow> string" where
  "percent c = [CHR ''%'', hex_char ((of_char c :: nat) div 16), hex_char ((of_char c :: nat) mod 16)]"

text \<open>\<open>encodeURIComponent\<close> leaves letters, digits and \<open>- _ . ! ~ * ' ( )\<close>.\<close>

definition uri_unreserved :: "char \<Rightarrow> bool" where
  "uri_unreserved c = (is_alpha c \<or> is_digit c \<or> c \<in> set ''-_.!~*'' \<or> c = CHR 0x27 \<or> c \<in> set ''()'')"

definition std_encodeURIComponent :: "string \<Rightarrow> string" where
  "std_encodeURIComponent s = concat (map (\<lambda>c. if uri_unreserved c then [c] else percent c) s)"

text \<open>
  \<open>decodeURIComponent\<close> throws on a \<open>%\<close> that two hexadecimal digits do not follow.
  An escape of a byte above 127 is part of a UTF-8 sequence: not ASCII, outside the model.
\<close>

fun std_decodeURIComponent :: "string \<Rightarrow> error + string" where
  "std_decodeURIComponent [] = Inr []"
| "std_decodeURIComponent (c # cs) =
     (if c = CHR ''%'' then
        (case cs of
           a # b # rest \<Rightarrow>
             (case (hex_value a, hex_value b) of
                (Some x, Some y) \<Rightarrow>
                  (if 16 * x + y < 128
                   then (case std_decodeURIComponent rest of
                           Inl e \<Rightarrow> Inl e
                         | Inr r \<Rightarrow> Inr (char_of (16 * x + y) # r))
                   else Inl OutsideModel)
              | _ \<Rightarrow> Inl URIError)
         | _ \<Rightarrow> Inl URIError)
      else (case std_decodeURIComponent cs of
              Inl e \<Rightarrow> Inl e
            | Inr r \<Rightarrow> Inr (c # r)))"

text \<open>Decimal digits of a non-negative integer.\<close>

definition digit_char :: "int \<Rightarrow> char" where
  "digit_char n = char_of (48 + n)"

function string_of_int :: "int \<Rightarrow> string" where
  "string_of_int n =
     (if n < 10 then [digit_char n] else string_of_int (n div 10) @ [digit_char (n mod 10)])"
  by pat_completeness auto
termination
  by (relation "measure nat") auto

declare string_of_int.simps [simp del]

definition int_of_digits :: "string \<Rightarrow> int" where
  "int_of_digits ds = foldl (\<lambda>a c. 10 * a + ((of_char c :: int) - 48)) 0 ds"

text \<open>
  \<open>Number.prototype.toFixed\<close>: the integer \<open>n\<close> for which \<open>n / 10^p\<close> is closest to the
  value, the larger one on a tie, written with \<open>p\<close> decimals; the sign is set aside
  first. From \<open>10^21\<close> on the result is \<open>String(x)\<close>, which the instance writes without
  the exponent of JavaScript.
\<close>

definition fixed_digits :: "rat \<Rightarrow> nat \<Rightarrow> string" where
  "fixed_digits x p =
     (let n = \<lfloor>\<bar>x\<bar> * 10 ^ p + 1 / 2\<rfloor>;
          ds = string_of_int n;
          padded = replicate (p + 1 - length ds) (CHR ''0'') @ ds
      in (if x < 0 then ''-'' else []) @
         (if p = 0 then padded
          else take (length padded - p) padded @ ''.'' @ drop (length padded - p) padded))"

text \<open>
  \<open>String(x)\<close>: the decimal digits of an integer below \<open>10^21\<close>. For another finite value
  JavaScript prints the shortest digits that read back as the same double; the instance
  prints up to twenty exact decimals without trailing zeros, which is the same for the
  values whose exact expansion is that short. The instance has no exponent notation:
  from \<open>10^21\<close> on and below \<open>10^-6\<close> JavaScript writes an exponent, the instance plain
  decimals.
\<close>

definition strip_zeros :: "string \<Rightarrow> string" where
  "strip_zeros s = rev (dropWhile (\<lambda>c. c = CHR ''0'') (rev s))"

definition finite_to_string :: "rat \<Rightarrow> string" where
  "finite_to_string x =
     (if x = of_int \<lfloor>x\<rfloor> then (if x < 0 then ''-'' else []) @ string_of_int \<bar>\<lfloor>x\<rfloor>\<bar>
      else (let n = \<lfloor>\<bar>x\<bar> * 10 ^ 20\<rfloor>;
                ds = string_of_int n;
                padded = replicate (21 - length ds) (CHR ''0'') @ ds
            in (if x < 0 then ''-'' else []) @ take (length padded - 20) padded @ ''.'' @
               strip_zeros (drop (length padded - 20) padded)))"

fun std_num_to_string :: "jsnum \<Rightarrow> string" where
  "std_num_to_string (Finite x) = finite_to_string x"
| "std_num_to_string NaN = ''NaN''"
| "std_num_to_string PosInf = ''Infinity''"
| "std_num_to_string NegInf = ''-Infinity''"

fun std_toFixed :: "jsnum \<Rightarrow> nat \<Rightarrow> string" where
  "std_toFixed (Finite x) p =
     (if \<bar>x\<bar> < 10 ^ 21 then fixed_digits x p else finite_to_string x)"
| "std_toFixed n p = std_num_to_string n"

text \<open>
  \<open>parseFloat\<close>: leading white space is skipped, then the longest prefix that is a
  decimal literal is read (sign, \<open>Infinity\<close>, digits, fraction, exponent). The value is
  the exact decimal: it is not rounded to the nearest double and never overflows to
  \<open>Infinity\<close>.
\<close>

definition read_exponent :: "string \<Rightarrow> int" where
  "read_exponent r =
     (case r of
        [] \<Rightarrow> 0
      | e # t \<Rightarrow>
          (if e = CHR ''e'' \<or> e = CHR ''E'' then
             (case t of
                [] \<Rightarrow> 0
              | sg # u \<Rightarrow>
                  (if sg = CHR ''-'' then - (int_of_digits (takeWhile is_digit u))
                   else if sg = CHR ''+'' then (int_of_digits (takeWhile is_digit u))
                   else (int_of_digits (takeWhile is_digit t))))
           else 0))"

definition read_unsigned :: "string \<Rightarrow> (jsnum \<times> string) option" where
  "read_unsigned s =
     (if take 8 s = ''Infinity'' then Some (PosInf, drop 8 s)
      else (let ip = takeWhile is_digit s;
                r1 = dropWhile is_digit s;
                fp = (case r1 of [] \<Rightarrow> [] | d # t \<Rightarrow> if d = CHR ''.'' then takeWhile is_digit t else []);
                r2 = (case r1 of [] \<Rightarrow> [] | d # t \<Rightarrow> if d = CHR ''.'' then dropWhile is_digit t else r1)
            in if ip = [] \<and> fp = [] then None
               else (let mant = (of_int (int_of_digits (ip @ fp)) :: rat) / 10 ^ length fp;
                         ex = read_exponent r2;
                         has_exp = (case r2 of
                                      [] \<Rightarrow> False
                                    | e # t \<Rightarrow> (e = CHR ''e'' \<or> e = CHR ''E'') \<and>
                                        (case t of
                                           [] \<Rightarrow> False
                                         | sg # u \<Rightarrow>
                                             (if sg = CHR ''-'' \<or> sg = CHR ''+''
                                              then takeWhile is_digit u \<noteq> []
                                              else is_digit sg)));
                         rest = (if has_exp
                                 then dropWhile is_digit
                                        (case tl r2 of
                                           [] \<Rightarrow> []
                                         | sg # u \<Rightarrow> if sg = CHR ''-'' \<or> sg = CHR ''+'' then u else sg # u)
                                 else r2)
                     in Some (Finite (if has_exp
                                      then (if ex < 0 then mant / 10 ^ nat (- ex) else mant * 10 ^ nat ex)
                                      else mant), rest))))"

fun negate :: "jsnum \<Rightarrow> jsnum" where
  "negate (Finite x) = Finite (- x)"
| "negate NaN = NaN"
| "negate PosInf = NegInf"
| "negate NegInf = PosInf"

definition read_signed :: "string \<Rightarrow> (jsnum \<times> string) option" where
  "read_signed s =
     (case s of
        [] \<Rightarrow> None
      | c # t \<Rightarrow>
          (if c = CHR ''-'' then map_option (\<lambda>(n, r). (negate n, r)) (read_unsigned t)
           else if c = CHR ''+'' then read_unsigned t
           else read_unsigned s))"

definition std_parseFloat :: "string \<Rightarrow> jsnum" where
  "std_parseFloat s =
     (case read_signed (dropWhile is_space s) of None \<Rightarrow> NaN | Some (n, r) \<Rightarrow> n)"

text \<open>
  \<open>Number(s)\<close>: the whole trimmed string has to be a decimal literal, and the empty
  string is zero. (Hexadecimal, octal and binary literals are not covered.)
\<close>

definition trim :: "string \<Rightarrow> string" where
  "trim s = rev (dropWhile is_space (rev (dropWhile is_space s)))"

definition std_to_number :: "string \<Rightarrow> jsnum" where
  "std_to_number s =
     (if trim s = [] then Finite 0
      else (case read_signed (trim s) of
              None \<Rightarrow> NaN
            | Some (n, r) \<Rightarrow> if r = [] then n else NaN))"

text \<open>
  \<open>queryString.stringify\<close>: the keys sorted, a null value as the bare key, every other
  value as \<open>key=value\<close>; both sides percent-encoded, also \<open>! ' ( ) *\<close>.
\<close>

definition qs_unreserved :: "char \<Rightarrow> bool" where
  "qs_unreserved c = (is_alpha c \<or> is_digit c \<or> c \<in> set ''-_.~'')"

definition qs_encode :: "string \<Rightarrow> string" where
  "qs_encode s = concat (map (\<lambda>c. if qs_unreserved c then [c] else percent c) s)"

fun qs_entry :: "string \<times> jsval \<Rightarrow> string" where
  "qs_entry (k, JNull) = qs_encode k"
| "qs_entry (k, JStr v) = qs_encode k @ ''='' @ qs_encode v"
| "qs_entry (k, JNum n) = qs_encode k @ ''='' @ qs_encode (std_num_to_string n)"

fun join_amp :: "string list \<Rightarrow> string" where
  "join_amp [] = []"
| "join_amp [x] = x"
| "join_amp (x # y # ys) = x @ ''&'' @ join_amp (y # ys)"

definition std_qs_stringify :: "obj \<Rightarrow> string" where
  "std_qs_stringify ob = join_amp (filter (\<lambda>x. x \<noteq> []) (map qs_entry (sort_key fst ob)))"

text \<open>
  \<open>queryString.parse\<close>: the input trimmed and without one leading \<open>?\<close>, \<open>#\<close> or \<open>&\<close>,
  split at \<open>&\<close>; in each non-empty part \<open>+\<close> is a space, the key ends at the first
  \<open>=\<close>, and a part with no \<open>=\<close> has the value null. A repeated key would collect an
  array, and the package's decoder leaves a malformed escape in the text in a way of
  its own: the instance answers \<open>OutsideModel\<close> for both. The result has its keys
  sorted as strings (a JavaScript object would list integer-like keys first; the
  entries are the same).
\<close>

fun qs_decode :: "string \<Rightarrow> error + string" where
  "qs_decode [] = Inr []"
| "qs_decode (c # cs) =
     (if c = CHR ''%'' then
        (case cs of
           a # b # rest \<Rightarrow>
             (case (hex_value a, hex_value b) of
                (Some x, Some y) \<Rightarrow>
                  (if 16 * x + y < 128
                   then (case qs_decode rest of
                           Inl e \<Rightarrow> Inl e
                         | Inr r \<Rightarrow> Inr (char_of (16 * x + y) # r))
                   else Inl OutsideModel)
              | _ \<Rightarrow> Inl OutsideModel)
         | _ \<Rightarrow> Inl OutsideModel)
      else (case qs_decode cs of
              Inl e \<Rightarrow> Inl e
            | Inr r \<Rightarrow> Inr (c # r)))"

definition qs_parameter :: "string \<Rightarrow> error + string \<times> jsval" where
  "qs_parameter p =
     (let q = map (\<lambda>c. if c = CHR ''+'' then CHR '' '' else c) p in
      case qs_decode (takeWhile (\<lambda>c. c \<noteq> CHR ''='') q) of
        Inl e \<Rightarrow> Inl e
      | Inr key \<Rightarrow>
          (if CHR ''='' \<in> set q
           then (case qs_decode (tl (dropWhile (\<lambda>c. c \<noteq> CHR ''='') q)) of
                   Inl e \<Rightarrow> Inl e
                 | Inr v \<Rightarrow> Inr (key, JStr v))
           else Inr (key, JNull)))"

fun qs_collect :: "string list \<Rightarrow> obj \<Rightarrow> error + obj" where
  "qs_collect [] ret = Inr ret"
| "qs_collect (p # ps) ret =
     (if p = [] then qs_collect ps ret
      else (case qs_parameter p of
              Inl e \<Rightarrow> Inl e
            | Inr (key, v) \<Rightarrow>
                (if map_of ret key = None then qs_collect ps (ret @ [(key, v)])
                 else Inl OutsideModel)))"

definition std_qs_parse :: "string \<Rightarrow> error + obj" where
  "std_qs_parse query =
     (let q = trim query;
          q1 = (case q of [] \<Rightarrow> [] | c # t \<Rightarrow> if c \<in> set ''?#&'' then t else q)
      in if q1 = [] then Inr []
         else (case qs_collect (split_on (CHR ''&'') q1) [] of
                 Inl e \<Rightarrow> Inl e
               | Inr ret \<Rightarrow> Inr (sort_key fst ret)))"

definition std_lib :: lib where
  "std_lib = \<lparr>encodeURIComponent = std_encodeURIComponent,
              decodeURIComponent = std_decodeURIComponent,
              qs_stringify = std_qs_stringify,
              qs_parse = std_qs_parse,
              parseFloat = std_parseFloat,
              to_number = std_to_number,
              toFixed = std_toFixed,
              num_to_string = std_num_to_string\<rparr>"

text \<open>A State object as the constructor leaves it, in a browser whose location has the given fragment.\<close>

definition new_State :: "string \<Rightarrow> State" where
  "new_State h = \<lparr>current = [], previous = None, parameters = [], get_listeners = [],
                   location_hash = h, history_calls = [], timers = [], delivered = []\<rparr>"

section \<open>stringify on a store of objects\<close>

text \<open>
  To follow which object \<open>stringify\<close> writes to, objects live in a store and are named by
  their index; a new object goes to the end. The statements of \<open>stringify\<close> are the
  stages above, applied to the object the variable \<open>state\<close> names at that point:
  \<open>state = { ...state }\<close> and \<open>state = Object.fromEntries(...)\<close> make a new object, the
  \<open>delete\<close>s and the assignments of the formatters write to the object in place.
\<close>

type_synonym store = "obj list"

definition alloc :: "store \<Rightarrow> obj \<Rightarrow> store \<times> nat" where
  "alloc h ob = (h @ [ob], length h)"

definition stringify_store :: "lib \<Rightarrow> State \<Rightarrow> store \<Rightarrow> nat option \<Rightarrow> store \<times> (error + string)" where
  "stringify_store L S h arg =
     (let (h0, a0) = (case arg of None \<Rightarrow> alloc h (get S) | Some a \<Rightarrow> (h, a));
          (h1, a) = alloc h0 (h0 ! a0);
          link = fst (path_stage L (h1 ! a));
          h2 = h1[a := snd (path_stage L (h1 ! a))]
      in case map_stage L link (h2 ! a) of
           Inl e \<Rightarrow> (h2, Inl e)
         | Inr (link2, state2) \<Rightarrow>
             (let h3 = h2[a := state2];
                  (h4, b) = alloc h3 (filter_null (h3 ! a));
                  h5 = fold (\<lambda>kp hh. hh[b := stringify_parameter kp (hh ! b)]) (parameters S) h4;
                  newHash = unescape_hash (qs_stringify L (h5 ! b))
              in (h5, Inr (if newHash \<noteq> [] then link2 @ amp link2 @ newHash else link2))))"

section \<open>The App\<close>

text \<open>
  A registered module, as the bootstrap sees it: what its \<open>appInit\<close> hook hands to the
  callback (an error with its message, or nothing) and its style sheets.
\<close>

record module =
  module_id :: string
  requireModules :: "string list"
  appInit :: "string option"
  cssFiles :: "string list option"

text \<open>
  Modelled from the spec: \<open>./initModules\<close> is imported by the App and is not among the
  sources. The spec says of it: invoke each registered module's init hook; aggregate
  errors, the first error short-circuits the chain and is surfaced to the caller. The
  result is the error handed to the caller's callback. The hooks run in the order of
  the list; the order that \<open>requireModules\<close> asks for does not change which error is
  the result when one hook fails, and is not modelled.
\<close>

fun initModules :: "module list \<Rightarrow> string option" where
  "initModules [] = None"
| "initModules (m # ms) = (case appInit m of Some err \<Rightarrow> Some err | None \<Rightarrow> initModules ms)"

datatype alert_text = Message string | Undefined | ErrorOf error

datatype effect = Alert alert_text | CssLink string | Uncaught error

datatype default_state = DefaultData obj | DefaultTemplate string

text \<open>
  What \<open>twigGet\<close> does with a template when it has a callback: a compile error reaches
  the callback as a string, a render error as an \<open>Error\<close>, a result trimmed.
\<close>

datatype twig_outcome = CompileFails string | RenderFails string | Renders string

text \<open>
  The surroundings of the App: the registered modules, \<open>config.defaultState\<close>, the
  template engine and the YAML parser, the listeners of the App's \<open>state-get\<close> event,
  and the promises the listeners of \<open>init\<close> add (each with the message it rejects with,
  or none when it resolves).
\<close>

record App_env =
  modules :: "module list"
  defaultState :: default_state
  twig :: "string \<Rightarrow> obj \<Rightarrow> twig_outcome"
  yaml_load :: "string \<Rightarrow> string + obj"
  state_get_listeners :: "(obj \<Rightarrow> obj) list"
  init_promises :: "string option list"

definition loadCssFiles :: "module list \<Rightarrow> effect list" where
  "loadCssFiles ms =
     concat (map (\<lambda>m. map CssLink (case cssFiles m of None \<Rightarrow> [] | Some files \<Rightarrow> files)) ms)"

text \<open>
  \<open>init (initState)\<close>: \<open>Promise.all(promises).then(() => state.apply(initState))\<close>, with
  the \<open>catch\<close> that alerts the first rejection or what \<open>apply\<close> throws.
\<close>

definition App_init :: "lib \<Rightarrow> App_env \<Rightarrow> State \<Rightarrow> obj \<Rightarrow> State \<times> effect list" where
  "App_init L E S initState =
     (let S1 = S\<lparr>get_listeners :=
                   get_listeners S @ [\<lambda>acc. fold (\<lambda>listener a. listener a) (state_get_listeners E) acc]\<rparr>
      in case find (\<lambda>p. p \<noteq> None) (init_promises E) of
           Some (Some msg) \<Rightarrow> (S1, [Alert (Message msg)])
         | _ \<Rightarrow>
            (case apply_state L S1 (ArgObject initState) None of
               (S2, Inl e) \<Rightarrow> (S2, [Alert (ErrorOf e)])
             | (S2, Inr st) \<Rightarrow> (S2, [])))"

text \<open>\<open>{ ...defaultState, ...initState }\<close>.\<close>

definition spread2 :: "obj \<Rightarrow> obj \<Rightarrow> obj" where
  "spread2 a b = merge_into a b"

definition getInitState :: "lib \<Rightarrow> App_env \<Rightarrow> State \<Rightarrow> State \<times> effect list" where
  "getInitState L E S =
     (case parse L S None of
        Inl e \<Rightarrow> (S, [Uncaught e])
      | Inr initState \<Rightarrow>
          (case defaultState E of
             DefaultTemplate t \<Rightarrow>
               (case twig E t initState of
                  CompileFails m \<Rightarrow> (S, [Alert Undefined])
                | RenderFails m \<Rightarrow> (S, [Alert (Message (''Error rendering Twig template: '' @ m))])
                | Renders text \<Rightarrow>
                    (case yaml_load E (trim text) of
                       Inl m \<Rightarrow> (S, [Alert (Message m)])
                     | Inr d \<Rightarrow> App_init L E S (spread2 d initState)))
           | DefaultData d \<Rightarrow> App_init L E S (spread2 d initState)))"

text \<open>
  \<open>initModules (callback)\<close> of the App, with the callback of the constructor,
  \<open>() => this.getInitState()\<close>.
\<close>

definition App_initModules :: "lib \<Rightarrow> App_env \<Rightarrow> State \<Rightarrow> State \<times> effect list" where
  "App_initModules L E S =
     (let alerts = (case initModules (modules E) of
                      Some message \<Rightarrow> [Alert (Message message)]
                    | None \<Rightarrow> []);
          css = loadCssFiles (modules E);
          (S', effects) = getInitState L E S
      in (S', alerts @ css @ effects))"

section \<open>Notions of the statements\<close>

text \<open>The composite \<open>map\<close> key next to one of the separate keys.\<close>

definition composite_coexists :: "obj \<Rightarrow> bool" where
  "composite_coexists c =
     (map_of c ''map'' \<noteq> None \<and>
      (map_of c ''zoom'' \<noteq> None \<or> map_of c ''lat'' \<noteq> None \<or> map_of c ''lon'' \<noteq> None))"

text \<open>\<open>apply\<close> called with a link: with null, or with a string.\<close>

fun link_arg :: "string option \<Rightarrow> apply_arg" where
  "link_arg None = ArgNull"
| "link_arg (Some s) = ArgString s"

text \<open>
  The state that \<open>apply\<close> works with: the argument itself when it is a mapping, and what
  \<open>parse\<close> makes of it (or throws) when it is null or a string.
\<close>

definition apply_input :: "lib \<Rightarrow> State \<Rightarrow> apply_arg \<Rightarrow> error + obj" where
  "apply_input L S arg =
     (case arg of
        ArgNull \<Rightarrow> parse L S None
      | ArgString s \<Rightarrow> parse L S (Some s)
      | ArgObject st \<Rightarrow> Inr st)"



subsection \<open>What a round trip asks of the builtins\<close>



subsection \<open>The encoded text, piece by piece\<close>










section \<open>Example inputs\<close>

definition broken_module :: module where
  "broken_module = \<lparr>module_id = ''lang'', requireModules = [''config''],
                     appInit = Some ''boom'', cssFiles = None\<rparr>"

definition plain_env :: "module list \<Rightarrow> App_env" where
  "plain_env ms = \<lparr>modules = ms, defaultState = DefaultData [(''zoom'', JNum (Finite 4))],
                   twig = (\<lambda>t ctx. Renders []), yaml_load = (\<lambda>t. Inr []),
                   state_get_listeners = [], init_promises = []\<rparr>"

definition ex_State :: State where
  "ex_State = (new_State ''#%'')\<lparr>current := [(''x'', JStr ''1'')], previous := Some []\<rparr>"

definition upper_formatter :: formatter where
  "upper_formatter = \<lparr>fmt_stringify = Some (\<lambda>v. JStr ''F''), fmt_parse = None\<rparr>"

definition fmt_State :: State where
  "fmt_State = (new_State [])\<lparr>parameters := [(''k'', upper_formatter)]\<rparr>"

text \<open>
  A formatter with both functions, as a module registers it for a numeric parameter:
  \<open>stringify\<close> writes \<open>'F'\<close> for every value, \<open>parse\<close> reads every text as 7.
\<close>

definition both_formatter :: formatter where
  "both_formatter = \<lparr>fmt_stringify = Some (\<lambda>v. JStr ''F''), fmt_parse = Some (\<lambda>v. JNum (Finite 7))\<rparr>"

definition both_State :: State where
  "both_State = (new_State [])\<lparr>parameters := [(''k'', both_formatter)]\<rparr>"

definition listening_State :: State where
  "listening_State = (new_State [])\<lparr>get_listeners := [\<lambda>acc. AList.update ''q'' (JStr ''z'') acc]\<rparr>"

definition full_object :: obj where
  "full_object = [(''path'', JStr ''p''), (''zoom'', JNum (Finite 5)), (''lat'', JNum (Finite 1)),
                  (''lon'', JNum (Finite 2)), (''n'', JNull), (''k'', JStr ''v'')]"


definition equator_state :: obj where
  "equator_state = [(''zoom'', JNum (Finite 5)), (''lat'', JNum (Finite 0)), (''lon'', JNum (Finite 16))]"

section \<open>Properties\<close>

subsection \<open>apply: what every call does\<close>

lemma map_of_merge_into:
  "distinct (map fst d) \<Longrightarrow> map_of (merge_into cur d) = map_of cur ++ map_of d"
proof (induction d arbitrary: cur)
  case Nil
  then show ?case by (simp add: merge_into_def)
next
  case (Cons kv d)
  obtain k v where kv: "kv = (k, v)" by (cases kv)
  from Cons.prems kv have k: "k \<notin> fst ` set d" and d: "distinct (map fst d)" by auto
  have "map_of (merge_into cur (kv # d)) = map_of (merge_into (AList.update k v cur) d)"
    by (simp add: merge_into_def kv)
  also have "\<dots> = map_of (AList.update k v cur) ++ map_of d"
    by (rule Cons.IH [OF d])
  also have "\<dots> = (map_of cur)(k \<mapsto> v) ++ map_of d"
    by (simp only: update_conv')
  also have "\<dots> = map_of cur ++ map_of (kv # d)"
  proof (rule ext)
    fix x
    show "((map_of cur)(k \<mapsto> v) ++ map_of d) x = (map_of cur ++ map_of (kv # d)) x"
    proof (cases "x = k")
      case True
      from k have "map_of d k = None" by (simp add: map_of_eq_None_iff)
      with True show ?thesis by (simp add: kv map_add_def)
    next
      case False
      then show ?thesis by (simp add: kv map_add_def split: option.splits)
    qed
  qed
  finally show ?case .
qed

lemma updateLink_keeps:
  "updateLink L S p = Inr S' \<Longrightarrow>
     delivered S' = delivered S \<and> timers S' = timers S \<and> current S' = current S \<and>
     previous S' = previous S"
  by (auto simp: updateLink_def split: sum.splits)

lemma stringify_get: "stringify L S None = stringify L S (Some (get S))"
  by (simp add: stringify_def)

lemma stringify_state_fields:
  "stringify L (S\<lparr>previous := p, current := c\<rparr>) arg = stringify L S arg"
  by (cases arg) (simp_all add: stringify_def get_def)

lemma parse_previous [simp]: "parse L (S\<lparr>previous := p\<rparr>) a = parse L S a"
  by (simp add: parse_def read_link_def split: option.splits)

lemma apply_input_previous [simp]:
  "apply_input L (S\<lparr>previous := p\<rparr>) arg = apply_input L S arg"
  by (cases arg) (simp_all add: apply_input_def)

lemma apply_state_result:
  "snd (apply_state L S arg u) =
     (case apply_input L S arg of
        Inl e \<Rightarrow> Inl e
      | Inr state \<Rightarrow>
          if u = None \<or> u = Some [] then Inr state
          else (case stringify L S None of Inl e \<Rightarrow> Inl e | Inr s \<Rightarrow> Inr state))"
  by (cases arg)
     (auto simp: apply_state_def apply_input_def Let_def updateLink_def stringify_state_fields
        split: sum.splits)

lemma apply_state_timers:
  "timers (fst (apply_state L S arg u)) =
     (case snd (apply_state L S arg u) of
        Inl e \<Rightarrow> timers S
      | Inr state \<Rightarrow> timers S @ [state])"
  by (auto simp: apply_state_def Let_def dest: updateLink_keeps split: sum.splits apply_arg.splits)

lemma apply_state_delivered:
  "delivered (fst (apply_state L S arg u)) = delivered S"
  by (auto simp: apply_state_def Let_def dest: updateLink_keeps split: sum.splits apply_arg.splits)



subsection \<open>apply: snapshot and patch\<close>





subsection \<open>apply: a parse that throws\<close>

text \<open>
  C10. When \<open>apply\<close> is called with null or with a string and \<open>parse\<close> throws, the
  exception reaches the caller, Previous already is the copy of Current, and nothing
  else of the State has changed: Current is what it was.
\<close>

theorem apply_not_atomic_on_parse_error:
  "(parse L S None = Inl e \<longrightarrow>
      apply_state L S ArgNull u = (S\<lparr>previous := Some (current S)\<rparr>, Inl e)) \<and>
   (parse L S (Some s) = Inl e \<longrightarrow>
      apply_state L S (ArgString s) u = (S\<lparr>previous := Some (current S)\<rparr>, Inl e))"
  by (simp add: apply_state_def)

lemma parse_ex_None: "parse std_lib ex_State None = Inl URIError"
  by (simp add: parse_def read_link_def parse_link_def set_path_def ex_State_def new_State_def
      split_link_def search_def std_lib_def std_qs_parse_def trim_def)

lemma parse_ex_Some: "parse std_lib ex_State (Some ''%'') = Inl URIError"
  by (simp add: parse_def read_link_def parse_link_def set_path_def ex_State_def new_State_def
      split_link_def search_def std_lib_def std_qs_parse_def trim_def)

text \<open>
  In a State with Current \<open>{x:'1'}\<close> and an empty Previous, at the location \<open>#%\<close>:
  \<open>apply()\<close> and \<open>apply('%', {update:'push'})\<close> both throw the URIError of
  \<open>decodeURIComponent('%')\<close> and leave Previous \<open>{x:'1'}\<close>.
\<close>

theorem apply_not_atomic_on_parse_error_witness:
  "parse std_lib ex_State None = Inl URIError \<and>
   parse std_lib ex_State (Some ''%'') = Inl URIError \<and>
   previous ex_State = Some [] \<and>
   previous (fst (apply_state std_lib ex_State ArgNull None)) = Some [(''x'', JStr ''1'')] \<and>
   current (fst (apply_state std_lib ex_State ArgNull None)) = [(''x'', JStr ''1'')] \<and>
   snd (apply_state std_lib ex_State ArgNull None) = Inl URIError \<and>
   previous (fst (apply_state std_lib ex_State (ArgString ''%'') (Some ''push''))) = Some [(''x'', JStr ''1'')] \<and>
   current (fst (apply_state std_lib ex_State (ArgString ''%'') (Some ''push''))) = [(''x'', JStr ''1'')] \<and>
   snd (apply_state std_lib ex_State (ArgString ''%'') (Some ''push'')) = Inl URIError"
  using apply_not_atomic_on_parse_error [of std_lib ex_State URIError None "''%''"]
        apply_not_atomic_on_parse_error [of std_lib ex_State URIError "Some ''push''" "''%''"]
        parse_ex_None parse_ex_Some
  by (simp add: ex_State_def new_State_def)

subsection \<open>apply: the broadcast\<close>

text \<open>
  C6. A call of \<open>apply\<close> never calls a listener of \<open>apply\<close>: what the listeners have been
  handed is the same after the call as before it. The call returns the state it worked
  with unless \<open>parse\<close> throws or, with a truthy \<open>options.update\<close>, \<open>stringify\<close> throws; when
  it returns it has put one callback at the end of the timer queue, holding that
  state, and when it throws the queue is as it was. In particular \<open>apply\<close> of a mapping
  with no update always returns and queues the callback, and the listeners get the
  state when the event loop runs the queue.
\<close>

theorem apply_broadcast_deferred:
  "delivered (fst (apply_state L S arg u)) = delivered S \<and>
   timers (fst (apply_state L S arg u)) =
     (case snd (apply_state L S arg u) of
        Inl e \<Rightarrow> timers S
      | Inr state \<Rightarrow> timers S @ [state]) \<and>
   snd (apply_state L S arg u) =
     (case apply_input L S arg of
        Inl e \<Rightarrow> Inl e
      | Inr state \<Rightarrow>
          if u = None \<or> u = Some [] then Inr state
          else (case stringify L S None of Inl e \<Rightarrow> Inl e | Inr s \<Rightarrow> Inr state)) \<and>
   snd (apply_state L S (ArgObject d) None) = Inr d \<and>
   timers (fst (apply_state L S (ArgObject d) None)) = timers S @ [d] \<and>
   delivered (run_timer (fst (apply_state L S (ArgObject d) None))) =
     delivered S @ [hd (timers S @ [d])]"
proof -
  have r: "snd (apply_state L S (ArgObject d) None) = Inr d"
    by (simp add: apply_state_result apply_input_def)
  have t: "timers (fst (apply_state L S (ArgObject d) None)) = timers S @ [d]"
    by (simp add: apply_state_timers r)
  have "delivered (run_timer (fst (apply_state L S (ArgObject d) None))) =
      delivered S @ [hd (timers S @ [d])]"
    by (cases "timers S") (simp_all add: run_timer_def t apply_state_delivered)
  with r t show ?thesis
    using apply_state_result [of L S arg u] apply_state_timers [of L S arg u]
      apply_state_delivered [of L S arg u] by simp
qed

text \<open>The listeners are called when the event loop runs the callback.\<close>

lemma run_timer_delivers:
  "timers S = state # rest \<Longrightarrow> delivered (run_timer S) = delivered S @ [state]"
  by (simp add: run_timer_def)

subsection \<open>apply: the link\<close>

lemmas eval_defs =
  apply_state_def updateLink_def stringify_def stringify_object_def get_def new_State_def
  path_stage_def map_stage_def hash_stage_def filter_null_def stringify_parameters_def
  unescape_hash_def std_lib_def std_qs_stringify_def merge_into_def amp_def qs_encode_def
  qs_unreserved_def is_alpha_def is_digit_def

text \<open>
  C2, as stated, fails. On a new State with no listener of \<open>get\<close>,
  \<open>apply({x:'1'}, {update:'push'})\<close> returns \<open>{x:'1'}\<close> and calls \<open>pushState\<close> with \<open>#\<close>,
  while the state it was given stringifies to \<open>x=1\<close>.
\<close>

theorem apply_url_counterexample:
  "history_calls (fst (apply_state std_lib (new_State []) (ArgObject [(''x'', JStr ''1'')]) (Some ''push'')))
     = [PushState ''#''] \<and>
   snd (apply_state std_lib (new_State []) (ArgObject [(''x'', JStr ''1'')]) (Some ''push''))
     = Inr [(''x'', JStr ''1'')] \<and>
   stringify std_lib (new_State []) (Some [(''x'', JStr ''1'')]) = Inr ''x=1''"
  by (simp add: eval_defs)

text \<open>
  C2, amended. When \<open>apply\<close> is called with a truthy \<open>options.update\<close> and returns, it has
  made one call on the history, \<open>pushState\<close> for \<open>'push'\<close> and \<open>replaceState\<close> for any other
  value, with \<open>#\<close> and the stringified result of \<open>get ()\<close>: the state collected from the
  listeners of \<open>get\<close>, which is neither the state passed to \<open>apply\<close> nor Current.
\<close>

theorem apply_url_from_get:
  "u \<noteq> [] \<Longrightarrow> snd (apply_state L S arg (Some u)) = Inr delta \<Longrightarrow>
     (case stringify L S (Some (get S)) of
        Inl e \<Rightarrow> False
      | Inr s \<Rightarrow>
          history_calls (fst (apply_state L S arg (Some u))) =
            history_calls S @
              [if u = ''push'' then PushState (CHR ''#'' # s) else ReplaceState (CHR ''#'' # s)])"
  by (auto simp: apply_state_def Let_def updateLink_def stringify_get [symmetric] stringify_state_fields
      split: sum.splits apply_arg.splits)

lemma listening_apply:
  "snd (apply_state std_lib listening_State (ArgObject [(''x'', JStr ''1'')]) (Some ''replace''))
     = Inr [(''x'', JStr ''1'')]"
  by (simp add: eval_defs listening_State_def)

lemma listening_stringify:
  "stringify std_lib listening_State (Some (get listening_State)) = Inr ''q=z''"
  by (simp add: eval_defs listening_State_def)

text \<open>
  With one listener of \<open>get\<close> that adds \<open>q: 'z'\<close>, \<open>apply({x:'1'}, {update:'replace'})\<close>
  calls \<open>replaceState\<close> with \<open>#q=z\<close>.
\<close>

theorem apply_url_from_get_witness:
  "''replace'' \<noteq> [] \<and>
   snd (apply_state std_lib listening_State (ArgObject [(''x'', JStr ''1'')]) (Some ''replace''))
     = Inr [(''x'', JStr ''1'')] \<and>
   history_calls (fst (apply_state std_lib listening_State (ArgObject [(''x'', JStr ''1'')]) (Some ''replace'')))
     = [ReplaceState ''#q=z'']"
  using apply_url_from_get [of "''replace''" std_lib listening_State "ArgObject [(''x'', JStr ''1'')]"
          "[(''x'', JStr ''1'')]"] listening_apply listening_stringify
  by (simp add: listening_State_def new_State_def)

subsection \<open>The bootstrap after a module that fails\<close>

text \<open>
  C1, on the code. One registered module whose \<open>appInit\<close> hands the error \<open>boom\<close> to its
  callback, a default state given as data, no promise added at \<open>init\<close>, an empty location:
  the error is alerted, and the bootstrap goes on to \<open>getInitState\<close> and \<open>init\<close>, which
  applies the initial state (Previous is set, Current holds the default state, the
  broadcast is in the timer queue).
\<close>

theorem bootstrap_applies_after_failed_module:
  "initModules (modules (plain_env [broken_module])) = Some ''boom'' \<and>
   snd (App_initModules std_lib (plain_env [broken_module]) (new_State [])) = [Alert (Message ''boom'')] \<and>
   current (fst (App_initModules std_lib (plain_env [broken_module]) (new_State []))) =
     [(''zoom'', JNum (Finite 4))] \<and>
   previous (fst (App_initModules std_lib (plain_env [broken_module]) (new_State []))) = Some [] \<and>
   timers (fst (App_initModules std_lib (plain_env [broken_module]) (new_State []))) =
     [[(''zoom'', JNum (Finite 4))]]"
  by (simp add: App_initModules_def getInitState_def App_init_def plain_env_def broken_module_def
      loadCssFiles_def spread2_def parse_def read_link_def parse_link_def set_path_def split_link_def
      expand_map_def parse_parameters_def std_qs_parse_def trim_def eval_defs)

subsection \<open>The composite map key\<close>

lemma parse_parameter_other:
  "k \<noteq> fst kp \<Longrightarrow> map_of (parse_parameter kp st) k = map_of st k"
  by (cases kp) (auto simp: parse_parameter_def update_conv' split: option.splits)

lemma parse_parameters_other:
  "k \<notin> fst ` set ps \<Longrightarrow> map_of (parse_parameters ps st) k = map_of st k"
  unfolding parse_parameters_def
  by (induction ps arbitrary: st) (auto simp: parse_parameter_other)

lemma expand_map_result:
  "expand_map L st = Inr st' \<Longrightarrow>
     map_of st' ''map'' = None \<or> map_of st' ''map'' = Some (JStr ''auto'')"
  by (auto simp: expand_map_def Let_def delete_conv' split: option.splits jsval.splits if_splits)

lemma parse_link_map:
  "''map'' \<notin> fst ` set ps \<Longrightarrow> parse_link L ps link = Inr d \<Longrightarrow>
     map_of d ''map'' = None \<or> map_of d ''map'' = Some (JStr ''auto'')"
  by (auto simp: parse_link_def parse_parameters_other split: prod.splits sum.splits
      dest: expand_map_result)

lemma apply_state_link_current:
  "parse L S a = Inr d \<Longrightarrow>
     current (fst (apply_state L S (link_arg a) u)) = merge_into (current S) d"
  by (cases a) (auto simp: apply_state_def Let_def dest: updateLink_keeps split: sum.splits)

text \<open>
  C5, as stated, fails. On a new State, \<open>apply('map=auto&zoom=3')\<close> leaves Current
  \<open>{map:'auto', zoom:'3'}\<close>: \<open>parse\<close> keeps the literal \<open>auto\<close> under \<open>map\<close>, and \<open>apply\<close>
  stores whatever keys it is given.
\<close>

theorem apply_link_counterexample:
  "composite_coexists
     (current (fst (apply_state std_lib (new_State []) (ArgString ''map=auto&zoom=3'') None))) \<and>
   current (fst (apply_state std_lib (new_State []) (ArgString ''map=auto&zoom=3'') None)) =
     [(''map'', JStr ''auto''), (''zoom'', JStr ''3'')]"
  by code_simp

text \<open>
  C5, amended. \<open>parse\<close> expands every composite \<open>map\<close> value but the literal \<open>auto\<close>, so
  a link brings no other \<open>map\<close> value into Current: when no formatter is registered for
  \<open>map\<close> and Current has no \<open>map\<close> key or has \<open>map: 'auto'\<close>, then after \<open>apply\<close> of a link
  (a string, or null for the location) that parses to an object, Current again has no
  \<open>map\<close> key or has \<open>map: 'auto'\<close>. Nothing is promised about \<open>map: 'auto'\<close> next to the
  separate keys, nor about \<open>apply\<close> of a mapping.
\<close>

theorem apply_link_map_only_auto:
  assumes "''map'' \<notin> fst ` set (parameters S)"
    and "parse L S a = Inr d"
    and "distinct (map fst d)"
    and "map_of (current S) ''map'' = None \<or> map_of (current S) ''map'' = Some (JStr ''auto'')"
  shows "(map_of d ''map'' = None \<or> map_of d ''map'' = Some (JStr ''auto'')) \<and>
         (map_of (current (fst (apply_state L S (link_arg a) u))) ''map'' = None \<or>
          map_of (current (fst (apply_state L S (link_arg a) u))) ''map'' = Some (JStr ''auto''))"
proof -
  from assms(1,2) have d: "map_of d ''map'' = None \<or> map_of d ''map'' = Some (JStr ''auto'')"
    by (auto simp: parse_def dest: parse_link_map)
  have "map_of (current (fst (apply_state L S (link_arg a) u))) = map_of (current S) ++ map_of d"
    by (simp add: apply_state_link_current [OF assms(2)] map_of_merge_into [OF assms(3)])
  with d assms(4) show ?thesis
    by (auto simp: map_add_def split: option.splits)
qed

text \<open>\<open>apply('map=17/1.5/-2.25&q=1')\<close> on a new State: the composite is expanded, Current has no \<open>map\<close>.\<close>

lemma ex5_parse:
  "parse std_lib (new_State []) (Some ''map=17/1.5/-2.25&q=1'') =
     Inr [(''q'', JStr ''1''), (''zoom'', JNum (Finite 17)), (''lat'', JNum (Finite (3 / 2))),
          (''lon'', JNum (Finite (- 9 / 4)))]"
  by code_simp

lemma ex5_current:
  "current (fst (apply_state std_lib (new_State []) (ArgString ''map=17/1.5/-2.25&q=1'') None)) =
     [(''q'', JStr ''1''), (''zoom'', JNum (Finite 17)), (''lat'', JNum (Finite (3 / 2))),
          (''lon'', JNum (Finite (- 9 / 4)))]"
  by code_simp

theorem apply_link_map_only_auto_witness:
  "''map'' \<notin> fst ` set (parameters (new_State [])) \<and>
   parse std_lib (new_State []) (Some ''map=17/1.5/-2.25&q=1'') =
     Inr [(''q'', JStr ''1''), (''zoom'', JNum (Finite 17)), (''lat'', JNum (Finite (3 / 2))),
          (''lon'', JNum (Finite (- 9 / 4)))] \<and>
   distinct (map fst [(''q'', JStr ''1''), (''zoom'', JNum (Finite 17)), (''lat'', JNum (Finite (3 / 2))),
          (''lon'', JNum (Finite (- 9 / 4)))]) \<and>
   map_of (current (new_State [])) ''map'' = None \<and>
   map_of (current (fst (apply_state std_lib (new_State []) (ArgString ''map=17/1.5/-2.25&q=1'') None)))
     ''map'' = None"
proof -
  have p: "''map'' \<notin> fst ` set (parameters (new_State []))" by (simp add: new_State_def)
  have d: "distinct (map fst [(''q'', JStr ''1''), (''zoom'', JNum (Finite 17)),
      (''lat'', JNum (Finite (3 / 2))), (''lon'', JNum (Finite (- 9 / 4)))])" by simp
  have c: "map_of (current (new_State [])) ''map'' = None \<or>
      map_of (current (new_State [])) ''map'' = Some (JStr ''auto'')" by (simp add: new_State_def)
  from apply_link_map_only_auto [OF p ex5_parse d c, of None] ex5_current
  show ?thesis using p d ex5_parse by (simp add: new_State_def)
qed

subsection \<open>stringify: the formatters\<close>

lemma stringify_parameter_other:
  "k \<noteq> fst kp \<Longrightarrow> map_of (stringify_parameter kp st) k = map_of st k"
  by (cases kp) (auto simp: stringify_parameter_def update_conv' split: option.splits)

lemma stringify_parameters_other:
  "k \<notin> fst ` set ps \<Longrightarrow> map_of (stringify_parameters ps st) k = map_of st k"
  unfolding stringify_parameters_def
  by (induction ps arbitrary: st) (auto simp: stringify_parameter_other)

lemma stringify_parameter_own:
  "fmt_stringify p = Some f \<Longrightarrow>
     map_of (stringify_parameter (k, p) st) k =
       (if truthy (map_of st k) then Some (f (the (map_of st k))) else map_of st k)"
  by (simp add: stringify_parameter_def update_conv')

lemma stringify_parameters_Cons:
  "stringify_parameters (kp # ps) st = stringify_parameters ps (stringify_parameter kp st)"
  by (simp add: stringify_parameters_def)

lemma stringify_parameters_own:
  "distinct (map fst ps) \<Longrightarrow> map_of ps k = Some p \<Longrightarrow> fmt_stringify p = Some f \<Longrightarrow>
     map_of (stringify_parameters ps st) k =
       (if truthy (map_of st k) then Some (f (the (map_of st k))) else map_of st k)"
proof (induction ps arbitrary: st)
  case Nil
  then show ?case by simp
next
  case (Cons kp ps)
  obtain k' p' where kp: "kp = (k', p')" by (cases kp)
  show ?case
  proof (cases "k = k'")
    case True
    with Cons.prems kp have nk: "k \<notin> fst ` set ps" and "p' = p" by auto
    with Cons.prems(3) have "fmt_stringify p' = Some f" by simp
    from stringify_parameter_own [OF this] have
      "map_of (stringify_parameter (k, p') st) k =
         (if truthy (map_of st k) then Some (f (the (map_of st k))) else map_of st k)" .
    moreover have "map_of (stringify_parameters (kp # ps) st) k =
        map_of (stringify_parameter (k, p') st) k"
      using nk True by (simp add: stringify_parameters_Cons kp stringify_parameters_other)
    ultimately show ?thesis by simp
  next
    case False
    with Cons.prems kp have "distinct (map fst ps)" and "map_of ps k = Some p" by auto
    from Cons.IH [OF this Cons.prems(3), of "stringify_parameter kp st"] False show ?thesis
      by (simp add: stringify_parameters_Cons kp stringify_parameter_other)
  qed
qed

text \<open>
  What the code does for a truthy value: in the object handed to the encoder, the value
  of a key with a registered \<open>stringify\<close> function is replaced with
  \<open>formatter.stringify(value)\<close>.
\<close>

lemma formatter_on_truthy_value:
  "distinct (map fst ps) \<Longrightarrow> map_of ps k = Some p \<Longrightarrow> fmt_stringify p = Some f \<Longrightarrow>
     truthy (map_of (filter_null st) k) \<Longrightarrow>
     map_of (stringify_parameters ps (filter_null st)) k = Some (f (the (map_of (filter_null st) k)))"
  by (simp add: stringify_parameters_own)

text \<open>
  C8, on the code. A formatter is registered for \<open>k\<close>; its \<open>stringify\<close> writes \<open>'F'\<close> for
  every value and its \<open>parse\<close> reads every text as 7. \<open>stringify({k: 5})\<close> is \<open>k=F\<close>, but
  \<open>stringify({k: 0})\<close> is \<open>k=0\<close> and \<open>stringify({k: ''})\<close> is \<open>k=\<close>: for a value that is
  zero or the empty string the function is not called and the raw value is encoded.
  On the way back \<open>parse('k=0')\<close> does call \<open>formatter.parse\<close>, on the text \<open>'0'\<close>.
\<close>

theorem stringify_skips_formatter_on_zero:
  "stringify std_lib both_State (Some [(''k'', JNum (Finite 5))]) = Inr ''k=F'' \<and>
   stringify std_lib both_State (Some [(''k'', JNum (Finite 0))]) = Inr ''k=0'' \<and>
   stringify std_lib both_State (Some [(''k'', JStr [])]) = Inr ''k='' \<and>
   parse std_lib both_State (Some ''k=F'') = Inr [(''k'', JNum (Finite 7))] \<and>
   parse std_lib both_State (Some ''k=0'') = Inr [(''k'', JNum (Finite 7))] \<and>
   parse std_lib both_State (Some ''k='') = Inr [(''k'', JStr [])]"
  by code_simp

subsection \<open>stringify: the caller's object\<close>

lemma fold_store_length:
  "length (fold (\<lambda>kp hh. hh[b := F kp (hh ! b)]) ps h) = length h"
  by (induction ps arbitrary: h) auto

lemma fold_store_other:
  "c \<noteq> b \<Longrightarrow> fold (\<lambda>kp hh. hh[b := F kp (hh ! b)]) ps h ! c = h ! c"
  by (induction ps arbitrary: h) auto

lemma fold_store_own:
  "b < length h \<Longrightarrow> fold (\<lambda>kp hh. hh[b := F kp (hh ! b)]) ps h ! b = fold F ps (h ! b)"
  by (induction ps arbitrary: h) auto

text \<open>
  C9. \<open>stringify\<close> writes only to objects it has made itself: every object that was in the
  store before the call, the argument among them, is the same after the call, whether
  the call returns or throws. Its result is that of the function on values above.
\<close>

theorem stringify_keeps_callers_objects:
  "(case arg of None \<Rightarrow> True | Some a \<Rightarrow> a < length h) \<Longrightarrow> c < length h \<Longrightarrow>
     fst (stringify_store L S h arg) ! c = h ! c \<and>
     snd (stringify_store L S h arg) = stringify L S (map_option (\<lambda>a. h ! a) arg)"
  by (cases arg)
     (auto simp: stringify_store_def stringify_def stringify_object_def hash_stage_def alloc_def
        Let_def nth_append fold_store_other fold_store_own stringify_parameters_def
        split: sum.splits prod.splits)

text \<open>
  An object with a path, a location, a null value and a formatted key: the link is
  built from it, and the object is as it was.
\<close>

lemma full_object_stringify:
  "stringify std_lib fmt_State (Some full_object) = Inr ''p&map=5/1.000/2.000&k=F''"
  by code_simp

theorem stringify_keeps_callers_objects_witness:
  "(0::nat) < length [full_object] \<and>
   fst (stringify_store std_lib fmt_State [full_object] (Some 0)) ! 0 = full_object \<and>
   snd (stringify_store std_lib fmt_State [full_object] (Some 0)) = Inr ''p&map=5/1.000/2.000&k=F''"
  using stringify_keeps_callers_objects [where arg = "Some 0" and h = "[full_object]" and c = 0
          and L = std_lib and S = fmt_State]
        full_object_stringify
  by simp

subsection \<open>parse after stringify\<close>

























subsection \<open>The reference instance round-trips ASCII strings\<close>
































































subsection \<open>stringify: the location\<close>

text \<open>
  What the code does for truthy values: with a truthy \<open>zoom\<close> and non-zero numbers
  \<open>lat\<close> and \<open>lon\<close> the composite is written, the three keys leave the working copy, and
  the precision follows the table.
\<close>

lemma map_stage_numbers:
  assumes "truthy (map_of st ''zoom'')"
    and "map_of st ''lat'' = Some (JNum la)" and "truthy (Some (JNum la))"
    and "map_of st ''lon'' = Some (JNum lo)" and "truthy (Some (JNum lo))"
  shows "map_stage L link st =
     Inr (link @ amp link @ ''map='' @
            toFixed L (parseFloat L (to_string L (the (map_of st ''zoom'')))) 0 @
            ''/'' @ toFixed L la (locPrecision L st) @ ''/'' @ toFixed L lo (locPrecision L st),
          AList.delete ''lon'' (AList.delete ''lat'' (AList.delete ''zoom'' st)))"
  using assms by (simp add: map_stage_def)

lemma locPrecision_table:
  "map_of st ''zoom'' = Some (JNum (Finite z)) \<Longrightarrow> z \<noteq> 0 \<Longrightarrow>
     locPrecision L st =
       (if z > 16 then 5 else if z > 8 then 4 else if z > 4 then 3 else if z > 2 then 2
        else if z > 1 then 1 else 0)"
  by (simp add: locPrecision_def)

text \<open>The examples of the spec: five decimals at zoom 17, four at zoom 9, none at zoom 0.5.\<close>

lemma spec_precision_examples:
  "stringify std_lib (new_State [])
     (Some [(''zoom'', JNum (Finite 17)), (''lat'', JNum (Finite (1123456789 / 1000000000))),
            (''lon'', JNum (Finite (2987654321 / 1000000000)))]) = Inr ''map=17/1.12346/2.98765''"
  "stringify std_lib (new_State [])
     (Some [(''zoom'', JNum (Finite 9)), (''lat'', JNum (Finite (1123456789 / 1000000000))),
            (''lon'', JNum (Finite (2987654321 / 1000000000)))]) = Inr ''map=9/1.1235/2.9877''"
  "stringify std_lib (new_State [])
     (Some [(''zoom'', JNum (Finite (1 / 2))), (''lat'', JNum (Finite (1123456789 / 1000000000))),
            (''lon'', JNum (Finite (2987654321 / 1000000000)))]) = Inr ''map=1/1/3''"
  by code_simp+

text \<open>
  C4, on the code. \<open>parse('map=5/0/16')\<close> gives the state \<open>{zoom: 5, lat: 0, lon: 16}\<close>,
  in which the three keys are present. \<open>stringify\<close> of that state writes no composite:
  the latitude zero is falsy, and the three keys go out as separate parameters.
  Read back, they are strings, and \<open>stringify\<close> of those throws a TypeError.
\<close>

theorem stringify_zero_latitude:
  "parse std_lib (new_State []) (Some ''map=5/0/16'') = Inr equator_state \<and>
   stringify std_lib (new_State []) (Some equator_state) = Inr ''lat=0&lon=16&zoom=5'' \<and>
   parse std_lib (new_State []) (Some ''lat=0&lon=16&zoom=5'') =
     Inr [(''lat'', JStr ''0''), (''lon'', JStr ''16''), (''zoom'', JStr ''5'')] \<and>
   stringify std_lib (new_State [])
     (Some [(''lat'', JStr ''0''), (''lon'', JStr ''16''), (''zoom'', JStr ''5'')]) = Inl TypeError"
  by code_simp

end
